theory Spec2Isabelle
  imports Main "HOL-Library.Char_ord" "HOL-Library.List_Lexorder" "HOL-Library.Multiset"
begin

section \<open>Strings of the server model\<close>

text \<open>
  In the server model a character stands for a UTF-16 code unit below 256 (Basic Latin and
  Latin-1 Supplement), which covers wallet addresses and the room names built from them.
  On that range \<^verbatim>\<open>String.prototype.toLowerCase\<close> is Unicode's lower-case mapping of single
  code units: \<^verbatim>\<open>A\<close> to \<^verbatim>\<open>Z\<close> (65 to 90), 192 to 214 and 216 to 222 move up by 32 and
  every other code unit stays as it is.
\<close>

definition toLowerChar :: "char \<Rightarrow> char" where
  "toLowerChar c =
     (if (CHR ''A'' \<le> c \<and> c \<le> CHR ''Z'') \<or> (CHR 0xC0 \<le> c \<and> c \<le> CHR 0xD6)
         \<or> (CHR 0xD8 \<le> c \<and> c \<le> CHR 0xDE)
      then char_of (of_char c + (32::nat)) else c)"

definition toLowerCase :: "string \<Rightarrow> string" where
  "toLowerCase s = map toLowerChar s"

section \<open>Room identifiers (client hook \<^verbatim>\<open>useSocket\<close>)\<close>

text \<open>
  \<^verbatim>\<open>
  export function createRoomId(address1: string, address2: string): string {
    const sorted = [address1.toLowerCase(), address2.toLowerCase()].sort()
    return `${sorted[0]}_${sorted[1]}`
  }
  \<close>
  Here a JavaScript string is the sequence of its UTF-16 code units, as natural numbers, so
  that every string is covered. Lists are ordered lexicographically by code unit with a proper
  prefix smaller than its extensions, which is how \<^verbatim>\<open>Array.prototype.sort\<close> orders strings
  when no comparator is given. The built-in \<^verbatim>\<open>String.prototype.toLowerCase\<close> is not part
  of the sources: it is the parameter \<open>lower\<close>, and what is proved of \<open>createRoomId\<close> for
  every \<open>lower\<close> holds whatever the built-in returns. The code unit of the separator
  \<^verbatim>\<open>_\<close> is 95.
\<close>

type_synonym jsstring = "nat list"

definition createRoomId :: "(jsstring \<Rightarrow> jsstring) \<Rightarrow> jsstring \<Rightarrow> jsstring \<Rightarrow> jsstring" where
  "createRoomId lower address1 address2 =
     (let sorted = sort [lower address1, lower address2]
      in sorted ! 0 @ [95] @ sorted ! 1)"

text \<open>The room identifier as the design describes it: the identifiers lowercased, sorted,
  and joined with a separator.\<close>

fun join_with :: "'a list \<Rightarrow> 'a list list \<Rightarrow> 'a list" where
  "join_with sep [] = []"
| "join_with sep [x] = x"
| "join_with sep (x # y # ys) = x @ sep @ join_with sep (y # ys)"

definition roomId_spec :: "(jsstring \<Rightarrow> jsstring) \<Rightarrow> jsstring \<Rightarrow> jsstring \<Rightarrow> jsstring" where
  "roomId_spec lower a b = join_with [95] (sort (map lower [a, b]))"

text \<open>
  ASCII strings, and what the built-ins do on them: on a string whose code units are all
  below 128, \<^verbatim>\<open>toLowerCase\<close> moves \<^verbatim>\<open>A\<close> to \<^verbatim>\<open>Z\<close> up by 32 and
  \<^verbatim>\<open>toUpperCase\<close> moves \<^verbatim>\<open>a\<close> to \<^verbatim>\<open>z\<close> down by 32. \<open>lowers_ascii lower\<close> says
  that \<open>lower\<close> does so.
\<close>

definition asciiLower :: "nat \<Rightarrow> nat" where
  "asciiLower u = (if 65 \<le> u \<and> u \<le> 90 then u + 32 else u)"

definition asciiUpper :: "nat \<Rightarrow> nat" where
  "asciiUpper u = (if 97 \<le> u \<and> u \<le> 122 then u - 32 else u)"

definition ascii :: "jsstring \<Rightarrow> bool" where
  "ascii s = list_all (\<lambda>u. u < 128) s"

definition lowers_ascii :: "(jsstring \<Rightarrow> jsstring) \<Rightarrow> bool" where
  "lowers_ascii lower = (\<forall>s. ascii s \<longrightarrow> lower s = map asciiLower s)"

text \<open>Changing the letter case of an ASCII string at chosen positions: position \<open>i\<close> is
  switched to the other case when the \<open>i\<close>-th flag is set.\<close>

definition swapCase :: "nat \<Rightarrow> nat" where
  "swapCase u =
     (if 65 \<le> u \<and> u \<le> 90 then u + 32
      else if 97 \<le> u \<and> u \<le> 122 then u - 32
      else u)"

fun recase :: "bool list \<Rightarrow> jsstring \<Rightarrow> jsstring" where
  "recase [] s = s"
| "recase (f # fs) [] = []"
| "recase (f # fs) (u # us) = (if f then swapCase u else u) # recase fs us"

text \<open>
  What \<^verbatim>\<open>toLowerCase\<close> returns for a string whose code units are all below 256: Unicode's
  lower-case mapping of Basic Latin and Latin-1 Supplement. It is used at such strings only.
\<close>

definition latin1Lower :: "nat \<Rightarrow> nat" where
  "latin1Lower u =
     (if (65 \<le> u \<and> u \<le> 90) \<or> (192 \<le> u \<and> u \<le> 214) \<or> (216 \<le> u \<and> u \<le> 222)
      then u + 32 else u)"

definition toLowerCase_latin1 :: "jsstring \<Rightarrow> jsstring" where
  "toLowerCase_latin1 s = map latin1Lower s"

section \<open>Payload values\<close>

text \<open>
  A field of an inbound payload is a string or missing (\<^verbatim>\<open>undefined\<close>): \<open>None\<close> is
  the missing field. JavaScript's truthiness test \<^verbatim>\<open>!x\<close> fails for a missing field and
  for the empty string.
\<close>

definition truthy :: "string option \<Rightarrow> bool" where
  "truthy v = (case v of None \<Rightarrow> False | Some s \<Rightarrow> s \<noteq> [])"

text \<open>
  Numbers are IEEE doubles; the integers the handlers compute with are natural numbers here.
  A template literal renders an integer up to \<open>2 ^ 53\<close> by its decimal digits, which is what
  \<open>numToString\<close> gives; it is used for clock readings and for the minutes and seconds of
  a call.
\<close>

definition digitChar :: "nat \<Rightarrow> char" where
  "digitChar d = char_of (48 + d)"

fun numToString :: "nat \<Rightarrow> string" where
  "numToString n =
     (if n < 10 then [digitChar n] else numToString (n div 10) @ [digitChar (n mod 10)])"

declare numToString.simps [simp del]

text \<open>
  \<^verbatim>\<open>Math.floor(duration / 60)\<close> for an integer \<open>d\<close> held by a double. The division
  rounds the exact quotient to the nearest double, ties to the even significand, and
  \<^verbatim>\<open>Math.floor\<close> is exact. A quotient below 1 stays below 1. A quotient \<open>x\<close> with
  \<open>2 ^ e \<le> x < 2 ^ (e + 1)\<close> is rounded to a multiple of \<open>2 ^ (e - 52)\<close>: the 53-bit
  significand is the nearest integer to \<open>x / 2 ^ (e - 52)\<close>. \<open>ilog2\<close> is the binary
  logarithm rounded down, \<open>round_half_even a b\<close> the nearest integer to \<open>a / b\<close>.
\<close>

fun ilog2 :: "nat \<Rightarrow> nat" where
  "ilog2 n = (if n < 2 then 0 else ilog2 (n div 2) + 1)"

declare ilog2.simps [simp del]

definition round_half_even :: "nat \<Rightarrow> nat \<Rightarrow> nat" where
  "round_half_even a b =
     (let q = a div b; r = a mod b
      in if 2 * r < b then q
         else if b < 2 * r then q + 1
         else if even q then q else q + 1)"

definition floor_div60 :: "nat \<Rightarrow> nat" where
  "floor_div60 d =
     (if d < 60 then 0
      else
        (let e = ilog2 (d div 60)
         in if e \<le> 52 then round_half_even (d * 2 ^ (52 - e)) 60 div 2 ^ (52 - e)
            else round_half_even d (60 * 2 ^ (e - 52)) * 2 ^ (e - 52)))"

text \<open>\<^verbatim>\<open>String.prototype.split\<close> with a one-character separator.\<close>

fun split_on :: "char \<Rightarrow> string \<Rightarrow> string list" where
  "split_on sep [] = [[]]"
| "split_on sep (c # cs) =
     (if c = sep then [] # split_on sep cs
      else (case split_on sep cs of [] \<Rightarrow> [[c]] | p # ps \<Rightarrow> (c # p) # ps))"

section \<open>Data model of the relay server\<close>

text \<open>
  A chat message object, as the handlers build it: \<^verbatim>\<open>{id, message, sender, timestamp, type}\<close>
  and, for a call record, \<^verbatim>\<open>duration\<close>. Instants (ISO strings on the wire, dates in the
  store) are milliseconds since the epoch.
\<close>

record chat_msg =
  msg_id :: string
  msg_message :: string
  msg_sender :: string
  msg_timestamp :: nat
  msg_type :: string
  msg_duration :: "nat option"

text \<open>A stored document: \<^verbatim>\<open>{roomId, ...messageObj, timestamp: new Date(...)}\<close>.\<close>

record chat_doc =
  doc_roomId :: "string option"
  doc_msg :: chat_msg

text \<open>
  The durable store. \<^verbatim>\<open>chatMessagesCollection\<close> is \<^verbatim>\<open>null\<close> until the connection
  succeeds (\<open>collection = None\<close>); otherwise it holds the documents in insertion order.
  Whether the next \<^verbatim>\<open>insertOne\<close> or \<^verbatim>\<open>find\<close> rejects is the environment's choice.
\<close>

record store =
  collection :: "chat_doc list option"
  insertOneFails :: bool
  findFails :: bool

text \<open>
  Modelled from the spec: the store collaborator's query (section 6, "find-by-room-sorted-by-time"),
  which the server calls as \<^verbatim>\<open>find({ roomId }).sort({ timestamp: 1 })\<close>; the database that
  answers it is not part of the sources. The documents of the room, sorted by ascending timestamp.
\<close>

definition find_sorted :: "string \<Rightarrow> chat_doc list \<Rightarrow> chat_doc list" where
  "find_sorted r docs =
     sort_key (\<lambda>d. msg_timestamp (doc_msg d)) (filter (\<lambda>d. doc_roomId d = Some r) docs)"

text \<open>Outbound events, and where an emit is addressed: \<^verbatim>\<open>io.to(room)\<close>,
  \<^verbatim>\<open>socket.to(room)\<close> (the room without the emitting socket) and \<^verbatim>\<open>socket.emit\<close>.\<close>

datatype event =
    UserStatus string string
  | ChatHistory "chat_msg list"
  | ChatMessage chat_msg
  | Typing "string option" bool
  | VideoCallStatus string string string

datatype target =
    ToRoom "string option"
  | ToRoomExcept "string option" string
  | ToSocket string

record emission =
  em_target :: target
  em_recipients :: "string set"
  em_event :: event

datatype level = Warn | Error

record socket_data =
  userAddress :: "string option"
  roomId :: "string option"

record presence =
  socketIds :: "string set"
  lastSeen :: nat

text \<open>
  The state of the process: the three global maps (\<^verbatim>\<open>chatRoomsCache\<close>,
  \<^verbatim>\<open>onlineUsers\<close>, \<^verbatim>\<open>typingUsers\<close>), the store, the transport's view (connected
  sockets, \<^verbatim>\<open>socket.data\<close>, \<^verbatim>\<open>socket.rooms\<close> in insertion order,
  \<^verbatim>\<open>io.sockets.adapter.rooms\<close>), what has been emitted, what has been written with
  \<^verbatim>\<open>console.warn\<close> and \<^verbatim>\<open>console.error\<close> (each line by its fixed text, without the interpolated
  values and pictographs; informational \<^verbatim>\<open>console.log\<close> lines are left out), and the
  pending \<^verbatim>\<open>setTimeout\<close> re-checks.
\<close>

record server =
  chatRoomsCache :: "string option \<rightharpoonup> chat_msg list"
  onlineUsers :: "string \<rightharpoonup> presence"
  typingUsers :: "string option \<rightharpoonup> string option set"
  chatMessagesCollection :: store
  connected :: "string set"
  socketData :: "string \<Rightarrow> socket_data"
  socketRooms :: "string \<Rightarrow> string list"
  adapterRooms :: "string \<Rightarrow> string set"
  emitted :: "emission list"
  console :: "(level \<times> string) list"
  timers :: "(string \<times> string) list"

definition init_server :: server where
  "init_server =
     \<lparr>chatRoomsCache = Map.empty, onlineUsers = Map.empty, typingUsers = Map.empty,
      chatMessagesCollection = \<lparr>collection = Some [], insertOneFails = False, findFails = False\<rparr>,
      connected = {}, socketData = (\<lambda>_. \<lparr>userAddress = None, roomId = None\<rparr>),
      socketRooms = (\<lambda>_. []), adapterRooms = (\<lambda>_. {}),
      emitted = [], console = [], timers = []\<rparr>"

section \<open>Transport\<close>

definition members :: "server \<Rightarrow> string option \<Rightarrow> string set" where
  "members st k = (case k of None \<Rightarrow> {} | Some r \<Rightarrow> adapterRooms st r)"

definition recipients :: "server \<Rightarrow> target \<Rightarrow> string set" where
  "recipients st t =
     (case t of
        ToRoom k \<Rightarrow> members st k
      | ToRoomExcept k s \<Rightarrow> members st k - {s}
      | ToSocket s \<Rightarrow> {s})"

definition emit :: "target \<Rightarrow> event \<Rightarrow> server \<Rightarrow> server" where
  "emit t e st =
     st\<lparr>emitted := emitted st @ [\<lparr>em_target = t, em_recipients = recipients st t, em_event = e\<rparr>]\<rparr>"

definition console_warn :: "string \<Rightarrow> server \<Rightarrow> server" where
  "console_warn s st = st\<lparr>console := console st @ [(Warn, s)]\<rparr>"

definition console_error :: "string \<Rightarrow> server \<Rightarrow> server" where
  "console_error s st = st\<lparr>console := console st @ [(Error, s)]\<rparr>"

text \<open>A new connection: the socket is registered and sits in the room named by its own id.\<close>

definition transport_connect :: "string \<Rightarrow> server \<Rightarrow> server" where
  "transport_connect sid st =
     st\<lparr>connected := insert sid (connected st),
        socketData := (socketData st)(sid := \<lparr>userAddress = None, roomId = None\<rparr>),
        socketRooms := (socketRooms st)(sid := [sid]),
        adapterRooms := (adapterRooms st)(sid := insert sid (adapterRooms st sid))\<rparr>"

text \<open>\<^verbatim>\<open>socket.join(room)\<close>: \<^verbatim>\<open>socket.rooms\<close> is a set in insertion order.\<close>

definition socket_join :: "string \<Rightarrow> string \<Rightarrow> server \<Rightarrow> server" where
  "socket_join sid r st =
     st\<lparr>socketRooms := (socketRooms st)
          (sid := (if r \<in> set (socketRooms st sid) then socketRooms st sid
                   else socketRooms st sid @ [r])),
        adapterRooms := (adapterRooms st)(r := insert sid (adapterRooms st r))\<rparr>"

text \<open>What the transport does to a closing socket besides running the \<^verbatim>\<open>disconnect\<close>
  handler: the socket leaves every room and is dropped from the connected sockets.\<close>

definition transport_leave_all :: "string \<Rightarrow> server \<Rightarrow> server" where
  "transport_leave_all sid st =
     st\<lparr>connected := connected st - {sid},
        socketRooms := (socketRooms st)(sid := []),
        adapterRooms := (\<lambda>r. adapterRooms st r - {sid})\<rparr>"

section \<open>Chat store adapter\<close>

text \<open>
  \<^verbatim>\<open>saveChatMessageToDB(roomId, messageObj)\<close>: returns \<^verbatim>\<open>false\<close> with a warning when
  the collection is \<^verbatim>\<open>null\<close>, \<^verbatim>\<open>false\<close> with an error line when \<^verbatim>\<open>insertOne\<close>
  rejects, and \<^verbatim>\<open>true\<close> after the insert otherwise. Both callers set a non-empty
  \<^verbatim>\<open>timestamp\<close>, so the stored date is the message's own instant.
\<close>

definition saveChatMessageToDB :: "string option \<Rightarrow> chat_msg \<Rightarrow> server \<Rightarrow> bool \<times> server" where
  "saveChatMessageToDB k messageObj st =
     (case collection (chatMessagesCollection st) of
        None \<Rightarrow> (False, console_warn ''[Chat] MongoDB not connected, message not persisted'' st)
      | Some docs \<Rightarrow>
          if insertOneFails (chatMessagesCollection st)
          then (False, console_error ''[Chat] Failed to save message to MongoDB:'' st)
          else (True, st\<lparr>chatMessagesCollection := (chatMessagesCollection st)
                  \<lparr>collection := Some (docs @ [\<lparr>doc_roomId = k, doc_msg = messageObj\<rparr>])\<rparr>\<rparr>))"

text \<open>
  \<^verbatim>\<open>loadChatFromDB(roomId)\<close>: the empty list when the collection is \<^verbatim>\<open>null\<close>, the
  empty list with an error line when the query rejects, and otherwise the room's documents
  sorted by the store, each stripped of \<^verbatim>\<open>_id\<close> and \<^verbatim>\<open>roomId\<close>.
\<close>

definition loadChatFromDB :: "string \<Rightarrow> server \<Rightarrow> chat_msg list \<times> server" where
  "loadChatFromDB r st =
     (case collection (chatMessagesCollection st) of
        None \<Rightarrow> ([], st)
      | Some docs \<Rightarrow>
          if findFails (chatMessagesCollection st)
          then ([], console_error ''[Chat] Failed to load from MongoDB:'' st)
          else (map doc_msg (find_sorted r docs), st))"

section \<open>Event handlers\<close>

text \<open>Each handler runs for one socket, \<open>sid\<close> being \<^verbatim>\<open>socket.id\<close>; \<open>now\<close> is the
  clock reading and \<open>rnd\<close> the random suffix of a message id. A handler is taken as one
  step, its awaited store call included.\<close>

text \<open>Presence registration, written out in both \<^verbatim>\<open>user-online\<close> and \<^verbatim>\<open>join-room\<close>.\<close>

definition mark_online :: "nat \<Rightarrow> string \<Rightarrow> string \<Rightarrow> server \<Rightarrow> server" where
  "mark_online now n sid st =
     (let p = (case onlineUsers st n of
                 None \<Rightarrow> \<lparr>socketIds = {}, lastSeen = now\<rparr>
               | Some p \<Rightarrow> p)
      in st\<lparr>onlineUsers := (onlineUsers st)
              (n \<mapsto> p\<lparr>socketIds := insert sid (socketIds p), lastSeen := now\<rparr>)\<rparr>)"

definition user_online :: "nat \<Rightarrow> string \<Rightarrow> string option \<Rightarrow> server \<Rightarrow> server" where
  "user_online now sid ua st =
     (case ua of
        None \<Rightarrow> st
      | Some u \<Rightarrow>
          if u = [] then st
          else
            (let n = toLowerCase u;
                 st1 = mark_online now n sid st;
                 st2 = st1\<lparr>socketData := (socketData st1)
                          (sid := (socketData st1 sid)\<lparr>userAddress := Some n\<rparr>)\<rparr>
             in fold (\<lambda>room s.
                        if room \<noteq> sid then emit (ToRoom (Some room)) (UserStatus n ''online'') s
                        else s)
                     (socketRooms st2 sid) st2))"

text \<open>The scan of a room for a socket of a given user.\<close>

definition in_room_as :: "server \<Rightarrow> string \<Rightarrow> string \<Rightarrow> bool" where
  "in_room_as st r u =
     (\<exists>s \<in> adapterRooms st r. s \<in> connected st \<and> userAddress (socketData st s) = Some u)"

definition registry_online :: "server \<Rightarrow> string \<Rightarrow> bool" where
  "registry_online st u =
     (case onlineUsers st u of None \<Rightarrow> False | Some p \<Rightarrow> socketIds p \<noteq> {})"

text \<open>The last part of \<^verbatim>\<open>join-room\<close>: the other party's status for the joining socket,
  and the scheduled re-check.\<close>

definition other_user_status :: "string \<Rightarrow> string \<Rightarrow> string \<Rightarrow> server \<Rightarrow> server" where
  "other_user_status sid r n st =
     (case split_on CHR ''_'' r of
        user1 # user2 # _ \<Rightarrow>
          if user1 \<noteq> [] \<and> user2 \<noteq> [] then
            (let otherUser = (if toLowerCase user1 = n then toLowerCase user2
                              else toLowerCase user1);
                 otherUserOnline = (in_room_as st r otherUser \<or> registry_online st otherUser);
                 st1 = emit (ToSocket sid)
                         (UserStatus otherUser (if otherUserOnline then ''online'' else ''offline'')) st
             in st1\<lparr>timers := timers st1 @ [(r, otherUser)]\<rparr>)
          else st
      | _ \<Rightarrow> st)"

definition recheck_timer :: "string \<times> string \<Rightarrow> server \<Rightarrow> server" where
  "recheck_timer t st =
     (case t of (r, otherUser) \<Rightarrow>
        if in_room_as st r otherUser
        then emit (ToRoom (Some r)) (UserStatus otherUser ''online'') st
        else st)"

definition join_room :: "nat \<Rightarrow> string \<Rightarrow> string option \<Rightarrow> string option \<Rightarrow> server \<Rightarrow> server" where
  "join_room now sid rid ua st =
     (case (rid, ua) of
        (Some r, Some u) \<Rightarrow>
          if r = [] \<or> u = [] then console_warn ''[Chat] Invalid join-room request:'' st
          else
            (let n = toLowerCase u;
                 st1 = socket_join sid r st;
                 st2 = st1\<lparr>socketData := (socketData st1)
                          (sid := \<lparr>userAddress = Some n, roomId = Some r\<rparr>)\<rparr>;
                 st3 = mark_online now n sid st2;
                 st4 = emit (ToRoom (Some r)) (UserStatus n ''online'') st3;
                 (dbMessages, st5) = loadChatFromDB r st4;
                 st6 = (if length dbMessages > 0
                        then emit (ToSocket sid) (ChatHistory dbMessages)
                               (st5\<lparr>chatRoomsCache := (chatRoomsCache st5)(Some r \<mapsto> dbMessages)\<rparr>)
                        else emit (ToSocket sid) (ChatHistory [])
                               (st5\<lparr>chatRoomsCache := (chatRoomsCache st5)(Some r \<mapsto> [])\<rparr>))
             in other_user_status sid r n st6)
      | _ \<Rightarrow> console_warn ''[Chat] Invalid join-room request:'' st)"

record typing_data =
  ty_roomId :: "string option"
  ty_userAddress :: "string option"

definition typing_start :: "string \<Rightarrow> typing_data \<Rightarrow> server \<Rightarrow> server" where
  "typing_start sid d st =
     (let k = ty_roomId d; u = ty_userAddress d;
          st1 = (case typingUsers st k of
                   None \<Rightarrow> st\<lparr>typingUsers := (typingUsers st)(k \<mapsto> {})\<rparr>
                 | Some _ \<Rightarrow> st);
          st2 = (case typingUsers st1 k of
                   None \<Rightarrow> st1
                 | Some tu \<Rightarrow> st1\<lparr>typingUsers := (typingUsers st1)(k \<mapsto> insert u tu)\<rparr>)
      in emit (ToRoomExcept k sid) (Typing u True) st2)"

definition typing_stop :: "string \<Rightarrow> typing_data \<Rightarrow> server \<Rightarrow> server" where
  "typing_stop sid d st =
     (let k = ty_roomId d; u = ty_userAddress d;
          st1 = (case typingUsers st k of
                   None \<Rightarrow> st
                 | Some tu \<Rightarrow>
                     if tu - {u} = {} then st\<lparr>typingUsers := (typingUsers st)(k := None)\<rparr>
                     else st\<lparr>typingUsers := (typingUsers st)(k \<mapsto> tu - {u})\<rparr>)
      in emit (ToRoomExcept k sid) (Typing u False) st1)"

record chat_message_data =
  cm_roomId :: "string option"
  cm_message :: "string option"
  cm_sender :: "string option"
  cm_timestamp :: "nat option"
  cm_type :: "string option"

definition chat_message :: "nat \<Rightarrow> string \<Rightarrow> string \<Rightarrow> chat_message_data \<Rightarrow> server \<Rightarrow> server" where
  "chat_message now rnd sid d st =
     (case (cm_roomId d, cm_sender d, cm_message d) of
        (Some r, Some sender, Some message) \<Rightarrow>
          if r = [] \<or> sender = [] \<or> message = []
          then console_warn ''[Chat] Invalid message data:'' st
          else
            (let normalizedSender = toLowerCase sender;
                 st1 = (case typingUsers st (Some r) of
                          None \<Rightarrow> st
                        | Some tu \<Rightarrow>
                            emit (ToRoom (Some r)) (Typing (Some normalizedSender) False)
                              (st\<lparr>typingUsers := (typingUsers st)
                                    (Some r \<mapsto> tu - {Some normalizedSender})\<rparr>));
                 st2 = (case chatRoomsCache st1 (Some r) of
                          None \<Rightarrow> st1\<lparr>chatRoomsCache := (chatRoomsCache st1)(Some r \<mapsto> [])\<rparr>
                        | Some _ \<Rightarrow> st1);
                 messageObj = \<lparr>msg_id = numToString now @ rnd,
                               msg_message = message,
                               msg_sender = normalizedSender,
                               msg_timestamp = (case cm_timestamp d of Some t \<Rightarrow> t | None \<Rightarrow> now),
                               msg_type = (case cm_type d of None \<Rightarrow> ''text'' | Some t \<Rightarrow> t),
                               msg_duration = None\<rparr>;
                 messages = (case chatRoomsCache st2 (Some r) of None \<Rightarrow> [] | Some ms \<Rightarrow> ms);
                 st3 = st2\<lparr>chatRoomsCache := (chatRoomsCache st2)(Some r \<mapsto> messages @ [messageObj])\<rparr>;
                 st4 = (if members st3 (Some r) = {}
                        then console_warn ''[Chat] The other user must open the chat and join the room to receive messages.''
                               (console_warn ''[Chat] WARNING: Room has NO connected users! Message will not be delivered.'' st3)
                        else st3);
                 st5 = emit (ToRoom (Some r)) (ChatMessage messageObj) st4
             in snd (saveChatMessageToDB (Some r) messageObj st5))
      | _ \<Rightarrow> console_warn ''[Chat] Invalid message data:'' st)"

record call_ended_data =
  ce_roomId :: "string option"
  ce_duration :: nat
  ce_sender :: "string option"

definition video_call_ended :: "nat \<Rightarrow> string \<Rightarrow> call_ended_data \<Rightarrow> server \<Rightarrow> server" where
  "video_call_ended now sid d st =
     (let k = ce_roomId d; duration = ce_duration d;
          st1 = (case chatRoomsCache st k of
                   None \<Rightarrow> st\<lparr>chatRoomsCache := (chatRoomsCache st)(k \<mapsto> [])\<rparr>
                 | Some _ \<Rightarrow> st);
          minutes = floor_div60 duration;
          seconds = duration mod 60;
          durationText = (if minutes > 0
                          then numToString minutes @ ''m '' @ numToString seconds @ ''s''
                          else numToString seconds @ ''s'');
          messageObj = \<lparr>msg_id = numToString now,
                        msg_message = ''Video call ended - Duration: '' @ durationText,
                        msg_sender = ''system'',
                        msg_timestamp = now,
                        msg_type = ''video-call'',
                        msg_duration = Some duration\<rparr>;
          messages = (case chatRoomsCache st1 k of None \<Rightarrow> [] | Some ms \<Rightarrow> ms);
          st2 = st1\<lparr>chatRoomsCache := (chatRoomsCache st1)(k \<mapsto> messages @ [messageObj])\<rparr>;
          st3 = emit (ToRoom k) (ChatMessage messageObj) st2
      in snd (saveChatMessageToDB k messageObj st3))"



text \<open>The \<^verbatim>\<open>disconnect\<close> handler. It reads \<^verbatim>\<open>socket.data\<close> and \<^verbatim>\<open>socket.rooms\<close> as
  they are when it runs.\<close>

definition disconnect :: "string \<Rightarrow> server \<Rightarrow> server" where
  "disconnect sid st =
     (let ua = userAddress (socketData st sid);
          rid = roomId (socketData st sid);
          st1 = (case ua of
                   None \<Rightarrow> st
                 | Some u \<Rightarrow>
                     if u = [] then st
                     else
                       (case onlineUsers st u of
                          None \<Rightarrow> st
                        | Some p \<Rightarrow>
                            (let st' = st\<lparr>onlineUsers := (onlineUsers st)
                                            (u \<mapsto> p\<lparr>socketIds := socketIds p - {sid}\<rparr>)\<rparr>
                             in if socketIds p - {sid} = {} then
                                  (let st'' = (if truthy rid
                                               then emit (ToRoom rid) (UserStatus u ''offline'') st'
                                               else st')
                                   in fold (\<lambda>room s.
                                              if room \<noteq> sid
                                              then emit (ToRoom (Some room)) (UserStatus u ''offline'') s
                                              else s)
                                           (socketRooms st'' sid) st'')
                                else st')));
          st2 = (if truthy rid then
                   (case typingUsers st1 rid of
                      None \<Rightarrow> st1
                    | Some tu \<Rightarrow>
                        if truthy ua
                        then emit (ToRoom rid) (Typing ua False)
                               (st1\<lparr>typingUsers := (typingUsers st1)(rid \<mapsto> tu - {ua})\<rparr>)
                        else st1)
                 else st1)
      in st2)"

section \<open>Observations\<close>

text \<open>The \<^verbatim>\<open>chat-history\<close> payloads sent to one socket with \<^verbatim>\<open>socket.emit\<close>, in
  order.\<close>

fun histories :: "string \<Rightarrow> emission list \<Rightarrow> chat_msg list list" where
  "histories sid [] = []"
| "histories sid (e # es) =
     (case em_event e of
        ChatHistory h \<Rightarrow>
          if em_target e = ToSocket sid then h # histories sid es else histories sid es
      | _ \<Rightarrow> histories sid es)"

text \<open>How many \<^verbatim>\<open>user-status\<close> events with a given user and status were addressed to a
  room with \<^verbatim>\<open>io.to(room)\<close>.\<close>

definition status_count :: "string \<Rightarrow> string \<Rightarrow> string \<Rightarrow> emission list \<Rightarrow> nat" where
  "status_count room u status es =
     length (filter (\<lambda>e. em_target e = ToRoom (Some room) \<and> em_event e = UserStatus u status) es)"

text \<open>The typing map holds no empty set.\<close>

definition typing_inv :: "server \<Rightarrow> bool" where
  "typing_inv st = (\<forall>k tu. typingUsers st k = Some tu \<longrightarrow> tu \<noteq> {})"

text \<open>A reachable state used in the examples: one connection of user \<^verbatim>\<open>a\<close> that joined
  the rooms \<^verbatim>\<open>a_b\<close> and then \<^verbatim>\<open>a_c\<close>.\<close>

definition two_rooms :: server where
  "two_rooms =
     join_room 2 ''s1'' (Some ''a_c'') (Some ''a'')
       (join_room 1 ''s1'' (Some ''a_b'') (Some ''a'') (transport_connect ''s1'' init_server))"

text \<open>A store that holds two messages of room \<^verbatim>\<open>a_b\<close>, the later one inserted first.\<close>

definition example_msg :: "nat \<Rightarrow> chat_msg" where
  "example_msg t =
     \<lparr>msg_id = numToString t, msg_message = ''hello'', msg_sender = ''a'',
      msg_timestamp = t, msg_type = ''text'', msg_duration = None\<rparr>"

definition late_first_store :: server where
  "late_first_store =
     init_server\<lparr>chatMessagesCollection :=
       \<lparr>collection = Some [\<lparr>doc_roomId = Some ''a_b'', doc_msg = example_msg 20\<rparr>,
                           \<lparr>doc_roomId = Some ''a_c'', doc_msg = example_msg 15\<rparr>,
                           \<lparr>doc_roomId = Some ''a_b'', doc_msg = example_msg 10\<rparr>],
        insertOneFails = False, findFails = False\<rparr>\<rparr>"

text \<open>Room \<^verbatim>\<open>a_b\<close> with two member sockets, over a store that is not connected and
  over a store whose calls are rejected; and a valid message from \<^verbatim>\<open>A\<close>.\<close>

definition store_down :: server where
  "store_down =
     init_server\<lparr>chatMessagesCollection :=
                   \<lparr>collection = None, insertOneFails = False, findFails = False\<rparr>,
                 adapterRooms := (\<lambda>_. {})(''a_b'' := {''s1'', ''s2''})\<rparr>"

definition store_rejecting :: server where
  "store_rejecting =
     init_server\<lparr>chatMessagesCollection :=
                   \<lparr>collection = Some [], insertOneFails = True, findFails = True\<rparr>,
                 adapterRooms := (\<lambda>_. {})(''a_b'' := {''s1'', ''s2''})\<rparr>"

definition hi_from_A :: chat_message_data where
  "hi_from_A =
     \<lparr>cm_roomId = Some ''a_b'', cm_message = Some ''hi'', cm_sender = Some ''A'',
      cm_timestamp = None, cm_type = None\<rparr>"

section \<open>Properties of room identifiers\<close>

lemma createRoomId_cases:
  "createRoomId lower a b =
     (if lower a \<le> lower b then lower a @ [95] @ lower b else lower b @ [95] @ lower a)"
  by (simp add: createRoomId_def)

lemma createRoomId_lower:
  "lower a' = lower a \<Longrightarrow> lower b' = lower b \<Longrightarrow>
   createRoomId lower a' b' = createRoomId lower a b"
  by (simp add: createRoomId_def)

lemma createRoomId_commute: "createRoomId lower a b = createRoomId lower b a"
proof (cases "lower a = lower b")
  case True
  then show ?thesis
    by (simp add: createRoomId_cases)
next
  case False
  then show ?thesis
    by (auto simp add: createRoomId_cases)
qed

lemma asciiLower_swapCase: "asciiLower (swapCase u) = asciiLower u"
  unfolding asciiLower_def swapCase_def by (simp split: if_splits) arith

lemma asciiLower_asciiUpper: "asciiLower (asciiUpper u) = asciiLower u"
  unfolding asciiLower_def asciiUpper_def by (simp split: if_splits) arith

lemma asciiLower_idem: "asciiLower (asciiLower u) = asciiLower u"
  by (simp add: asciiLower_def)

lemma ascii_recase: "ascii s \<Longrightarrow> ascii (recase fs s)"
  by (induction fs s rule: recase.induct) (auto simp add: ascii_def swapCase_def)

lemma map_asciiLower_recase: "map asciiLower (recase fs s) = map asciiLower s"
  by (induction fs s rule: recase.induct) (simp_all add: asciiLower_swapCase)

lemma ascii_map_asciiUpper: "ascii s \<Longrightarrow> ascii (map asciiUpper s)"
  by (induction s) (auto simp add: ascii_def asciiUpper_def)

lemma ascii_map_asciiLower: "ascii s \<Longrightarrow> ascii (map asciiLower s)"
  by (induction s) (auto simp add: ascii_def asciiLower_def)

lemma lowers_ascii_recase:
  "lowers_ascii lower \<Longrightarrow> ascii s \<Longrightarrow> lower (recase fs s) = lower s"
  by (simp add: lowers_ascii_def ascii_recase map_asciiLower_recase)

lemma lowers_ascii_upper:
  "lowers_ascii lower \<Longrightarrow> ascii s \<Longrightarrow> lower (map asciiUpper s) = lower s"
  by (simp add: lowers_ascii_def ascii_map_asciiUpper asciiLower_asciiUpper)

lemma lowers_ascii_lower:
  "lowers_ascii lower \<Longrightarrow> ascii s \<Longrightarrow> lower (map asciiLower s) = lower s"
  by (simp add: lowers_ascii_def ascii_map_asciiLower asciiLower_idem)

lemma lowers_ascii_latin1: "lowers_ascii toLowerCase_latin1"
  by (auto simp add: lowers_ascii_def toLowerCase_latin1_def ascii_def list_all_iff
        latin1Lower_def asciiLower_def)

text \<open>
  Claim C1, amended. Whatever \<^verbatim>\<open>toLowerCase\<close> returns, the room identifier is symmetric in
  its two arguments, is the two identifiers lowercased, sorted and joined with the separator
  \<^verbatim>\<open>_\<close>, and does not change when an argument is replaced by a string with the same
  lower-case form. For ASCII identifiers, such as wallet addresses, that covers every change
  of letter case: at any positions, or wholesale by \<^verbatim>\<open>toUpperCase\<close> or \<^verbatim>\<open>toLowerCase\<close>.
\<close>

theorem C1_createRoomId_symmetric_lowercase_invariant:
  "createRoomId lower a b = createRoomId lower b a
   \<and> createRoomId lower a b = roomId_spec lower a b
   \<and> (lower a' = lower a \<and> lower b' = lower b \<longrightarrow>
        createRoomId lower a' b' = createRoomId lower a b)
   \<and> (lowers_ascii lower \<and> ascii a \<and> ascii b \<longrightarrow>
        createRoomId lower (recase fs a) (recase gs b) = createRoomId lower a b
      \<and> createRoomId lower (map asciiUpper a) (map asciiUpper b) = createRoomId lower a b
      \<and> createRoomId lower (map asciiLower a) (map asciiLower b) = createRoomId lower a b)"
proof (intro conjI impI)
  show "createRoomId lower a b = createRoomId lower b a"
    by (rule createRoomId_commute)
  show "createRoomId lower a b = roomId_spec lower a b"
    by (simp add: createRoomId_cases roomId_spec_def)
  show "createRoomId lower a' b' = createRoomId lower a b"
    if "lower a' = lower a \<and> lower b' = lower b"
    using that by (simp add: createRoomId_def)
next
  assume h: "lowers_ascii lower \<and> ascii a \<and> ascii b"
  show "createRoomId lower (recase fs a) (recase gs b) = createRoomId lower a b"
    by (rule createRoomId_lower) (simp_all add: h lowers_ascii_recase)
  show "createRoomId lower (map asciiUpper a) (map asciiUpper b) = createRoomId lower a b"
    by (rule createRoomId_lower) (simp_all add: h lowers_ascii_upper)
  show "createRoomId lower (map asciiLower a) (map asciiLower b) = createRoomId lower a b"
    by (rule createRoomId_lower) (simp_all add: h lowers_ascii_lower)
qed



theorem C1_wallet_address_witness:
  "createRoomId toLowerCase_latin1 [48, 88, 98, 50] [48, 120, 97, 49] =
     createRoomId toLowerCase_latin1 [48, 120, 66, 50] [48, 120, 97, 49]
   \<and> createRoomId toLowerCase_latin1
        (recase [False, True, True] [48, 120, 66, 50]) (recase [] [48, 120, 97, 49]) =
     createRoomId toLowerCase_latin1 [48, 120, 66, 50] [48, 120, 97, 49]
   \<and> createRoomId toLowerCase_latin1
        (map asciiUpper [48, 120, 66, 50]) (map asciiUpper [48, 120, 97, 49]) =
     createRoomId toLowerCase_latin1 [48, 120, 66, 50] [48, 120, 97, 49]
   \<and> createRoomId toLowerCase_latin1 [48, 120, 66, 50] [48, 120, 97, 49] =
     createRoomId toLowerCase_latin1 [48, 120, 97, 49] [48, 120, 66, 50]
   \<and> createRoomId toLowerCase_latin1 [48, 120, 66, 50] [48, 120, 97, 49] =
     [48, 120, 97, 49, 95, 48, 120, 98, 50]"
proof -
  have same: "toLowerCase_latin1 [48, 88, 98, 50] = toLowerCase_latin1 [48, 120, 66, 50]
              \<and> toLowerCase_latin1 [48, 120, 97, 49] = toLowerCase_latin1 [48, 120, 97, 49]"
    by (simp add: toLowerCase_latin1_def latin1Lower_def)
  have asc: "lowers_ascii toLowerCase_latin1 \<and> ascii [48, 120, 66, 50] \<and> ascii [48, 120, 97, 49]"
    by (simp add: lowers_ascii_latin1 ascii_def)
  have val: "roomId_spec toLowerCase_latin1 [48, 120, 66, 50] [48, 120, 97, 49] =
     [48, 120, 97, 49, 95, 48, 120, 98, 50]"
    by (simp add: roomId_spec_def toLowerCase_latin1_def latin1Lower_def)
  note inst = C1_createRoomId_symmetric_lowercase_invariant
         [where lower = toLowerCase_latin1 and a = "[48, 120, 66, 50]" and b = "[48, 120, 97, 49]"
            and a' = "[48, 88, 98, 50]" and b' = "[48, 120, 97, 49]"
            and fs = "[False, True, True]" and gs = "[]"]
  note commute = inst [THEN conjunct1]
  note spec = inst [THEN conjunct2, THEN conjunct1]
  note lowered = inst [THEN conjunct2, THEN conjunct2, THEN conjunct1, THEN mp, OF same]
  note cased = inst [THEN conjunct2, THEN conjunct2, THEN conjunct2, THEN mp, OF asc]
  show ?thesis
  proof (intro conjI)
    show "createRoomId toLowerCase_latin1 [48, 88, 98, 50] [48, 120, 97, 49] =
       createRoomId toLowerCase_latin1 [48, 120, 66, 50] [48, 120, 97, 49]"
      by (rule lowered)
    show "createRoomId toLowerCase_latin1
        (recase [False, True, True] [48, 120, 66, 50]) (recase [] [48, 120, 97, 49]) =
       createRoomId toLowerCase_latin1 [48, 120, 66, 50] [48, 120, 97, 49]"
      by (rule cased [THEN conjunct1])
    show "createRoomId toLowerCase_latin1
        (map asciiUpper [48, 120, 66, 50]) (map asciiUpper [48, 120, 97, 49]) =
       createRoomId toLowerCase_latin1 [48, 120, 66, 50] [48, 120, 97, 49]"
      by (rule cased [THEN conjunct2, THEN conjunct1])
    show "createRoomId toLowerCase_latin1 [48, 120, 66, 50] [48, 120, 97, 49] =
       createRoomId toLowerCase_latin1 [48, 120, 97, 49] [48, 120, 66, 50]"
      by (rule commute)
    show "createRoomId toLowerCase_latin1 [48, 120, 66, 50] [48, 120, 97, 49] =
       [48, 120, 97, 49, 95, 48, 120, 98, 50]"
      by (rule trans [OF spec val])
  qed
qed

text \<open>
  Claim C1, as stated, fails for a change of case that \<^verbatim>\<open>toLowerCase\<close> does not undo.
  The string \<^verbatim>\<open>SS\<close> (code units 83, 83) is what \<^verbatim>\<open>toUpperCase\<close> returns for the
  one-letter string of code unit 223, the sharp s. With the other party \<^verbatim>\<open>a\<close>, the sharp s
  gives the room \<^verbatim>\<open>a_\<close> followed by the sharp s, and its upper-case form gives
  \<^verbatim>\<open>a_ss\<close>.
\<close>

theorem C1_sharp_s_counterexample:
  "createRoomId toLowerCase_latin1 [223] [97] = [97, 95, 223]
   \<and> createRoomId toLowerCase_latin1 [83, 83] [97] = [97, 95, 115, 115]
   \<and> createRoomId toLowerCase_latin1 [83, 83] [97] \<noteq> createRoomId toLowerCase_latin1 [223] [97]"
  by (simp add: createRoomId_def toLowerCase_latin1_def latin1Lower_def)

section \<open>Rejected events\<close>

text \<open>
  Claim C2. A chat-message event whose room, sender or message is missing or empty is
  rejected: the handler only writes a warning. Nothing is emitted to any room or socket, the
  store is not touched, and the message cache, the typing sets and the presence registry are
  what they were.
\<close>

theorem C2_invalid_chat_message_rejected:
  assumes "\<not> truthy (cm_roomId d) \<or> \<not> truthy (cm_sender d) \<or> \<not> truthy (cm_message d)"
  shows "chat_message now rnd sid d st =
           st\<lparr>console := console st @ [(Warn, ''[Chat] Invalid message data:'')]\<rparr>
     \<and> emitted (chat_message now rnd sid d st) = emitted st
     \<and> chatMessagesCollection (chat_message now rnd sid d st) = chatMessagesCollection st
     \<and> chatRoomsCache (chat_message now rnd sid d st) = chatRoomsCache st
     \<and> typingUsers (chat_message now rnd sid d st) = typingUsers st
     \<and> onlineUsers (chat_message now rnd sid d st) = onlineUsers st"
proof -
  have "chat_message now rnd sid d st = console_warn ''[Chat] Invalid message data:'' st"
    using assms by (auto simp add: chat_message_def truthy_def split: option.splits)
  then show ?thesis
    by (simp add: console_warn_def)
qed

theorem C2_empty_message_witness:
  "\<not> truthy (cm_message \<lparr>cm_roomId = Some ''a_b'', cm_message = Some '''', cm_sender = Some ''a'',
                    cm_timestamp = None, cm_type = None\<rparr>)
   \<and> emitted (chat_message 7 ''x'' ''s1''
        \<lparr>cm_roomId = Some ''a_b'', cm_message = Some '''', cm_sender = Some ''a'',
         cm_timestamp = None, cm_type = None\<rparr> init_server) = []
   \<and> collection (chatMessagesCollection (chat_message 7 ''x'' ''s1''
        \<lparr>cm_roomId = Some ''a_b'', cm_message = Some '''', cm_sender = Some ''a'',
         cm_timestamp = None, cm_type = None\<rparr> init_server)) = Some []"
  using C2_invalid_chat_message_rejected [of
        "\<lparr>cm_roomId = Some ''a_b'', cm_message = Some '''', cm_sender = Some ''a'',
          cm_timestamp = None, cm_type = None\<rparr>" 7 "''x''" "''s1''" init_server]
  by (simp add: truthy_def init_server_def)

text \<open>
  Claim C9. A join-room event whose room or user address is missing or empty returns before
  any effect: the handler only writes a warning. The socket joins no room, its data, the
  presence registry and the message cache are unchanged, nothing is emitted and no re-check
  is scheduled.
\<close>

theorem C9_invalid_join_room_no_effect:
  assumes "\<not> truthy rid \<or> \<not> truthy ua"
  shows "join_room now sid rid ua st =
           st\<lparr>console := console st @ [(Warn, ''[Chat] Invalid join-room request:'')]\<rparr>
     \<and> socketRooms (join_room now sid rid ua st) = socketRooms st
     \<and> adapterRooms (join_room now sid rid ua st) = adapterRooms st
     \<and> socketData (join_room now sid rid ua st) = socketData st
     \<and> onlineUsers (join_room now sid rid ua st) = onlineUsers st
     \<and> chatRoomsCache (join_room now sid rid ua st) = chatRoomsCache st
     \<and> emitted (join_room now sid rid ua st) = emitted st
     \<and> timers (join_room now sid rid ua st) = timers st"
proof -
  have "join_room now sid rid ua st = console_warn ''[Chat] Invalid join-room request:'' st"
    using assms by (auto simp add: join_room_def truthy_def split: option.splits)
  then show ?thesis
    by (simp add: console_warn_def)
qed

theorem C9_missing_address_witness:
  "\<not> truthy None
   \<and> emitted (join_room 7 ''s1'' (Some ''a_b'') None init_server) = []
   \<and> adapterRooms (join_room 7 ''s1'' (Some ''a_b'') None init_server) ''a_b'' = {}
   \<and> onlineUsers (join_room 7 ''s1'' (Some ''a_b'') None init_server) ''a'' = None"
  using C9_invalid_join_room_no_effect [of "Some ''a_b''" None 7 "''s1''" init_server]
  by (simp add: truthy_def init_server_def)

section \<open>History on join\<close>

lemma histories_append: "histories sid (xs @ ys) = histories sid xs @ histories sid ys"
  by (induction xs) (simp_all split: event.splits)

lemma loadChatFromDB_state:
  "emitted (snd (loadChatFromDB r st)) = emitted st"
  by (simp add: loadChatFromDB_def console_error_def split: option.splits)

lemma loadChatFromDB_store_only:
  "chatMessagesCollection st' = chatMessagesCollection st \<Longrightarrow>
   fst (loadChatFromDB r st') = fst (loadChatFromDB r st)"
  by (simp add: loadChatFromDB_def split: option.splits)

lemma other_user_status_histories:
  "histories s (emitted (other_user_status sid r n st)) = histories s (emitted st)"
  by (simp add: other_user_status_def emit_def Let_def histories_append split: list.splits)

lemma join_room_histories:
  assumes "r \<noteq> []" "u \<noteq> []"
  shows "histories sid (emitted (join_room now sid (Some r) (Some u) st)) =
         histories sid (emitted st) @ [fst (loadChatFromDB r st)]"
proof -
  define st4 where "st4 = emit (ToRoom (Some r)) (UserStatus (toLowerCase u) ''online'')
     (mark_online now (toLowerCase u) sid
        ((socket_join sid r st)\<lparr>socketData := (socketData (socket_join sid r st))
                          (sid := \<lparr>userAddress = Some (toLowerCase u), roomId = Some r\<rparr>)\<rparr>))"
  have store: "chatMessagesCollection st4 = chatMessagesCollection st"
    by (simp add: st4_def emit_def mark_online_def socket_join_def Let_def)
  have em: "histories sid (emitted st4) = histories sid (emitted st)"
    by (simp add: st4_def emit_def mark_online_def socket_join_def Let_def histories_append)
  have h: "fst (loadChatFromDB r st4) = fst (loadChatFromDB r st)"
    using store by (rule loadChatFromDB_store_only)
  obtain ms st5 where l: "loadChatFromDB r st4 = (ms, st5)"
    by (cases "loadChatFromDB r st4")
  have em5: "emitted st5 = emitted st4"
    using loadChatFromDB_state [of r st4] l by simp
  have "join_room now sid (Some r) (Some u) st =
      other_user_status sid r (toLowerCase u)
        (if length ms > 0
         then emit (ToSocket sid) (ChatHistory ms)
                (st5\<lparr>chatRoomsCache := (chatRoomsCache st5)(Some r \<mapsto> ms)\<rparr>)
         else emit (ToSocket sid) (ChatHistory [])
                (st5\<lparr>chatRoomsCache := (chatRoomsCache st5)(Some r \<mapsto> [])\<rparr>))"
    using assms l by (simp add: join_room_def Let_def st4_def)
  then have "histories sid (emitted (join_room now sid (Some r) (Some u) st)) = histories sid (emitted st4) @ [ms]"
    using em5 by (simp add: other_user_status_histories emit_def histories_append)
  then show ?thesis
    using em h l by simp
qed

lemma loadChatFromDB_sorted: "sorted (map msg_timestamp (fst (loadChatFromDB r st)))"
proof -
  have "map msg_timestamp (map doc_msg (find_sorted r docs)) =
        map (\<lambda>d. msg_timestamp (doc_msg d)) (find_sorted r docs)" for docs
    by simp
  then show ?thesis
    by (simp add: loadChatFromDB_def find_sorted_def o_def sorted_sort_key split: option.splits)
qed


text \<open>
  Claim C4. The history loaded for a room is in non-decreasing timestamp order whatever the
  order in which the documents were inserted; it is what a valid join delivers to the joining
  socket as \<^verbatim>\<open>chat-history\<close>; and, when the store answers, it holds exactly the room's
  stored messages.
\<close>

theorem C4_history_sorted_by_timestamp:
  "sorted (map msg_timestamp (fst (loadChatFromDB r st)))
   \<and> (r \<noteq> [] \<and> u \<noteq> [] \<longrightarrow>
        histories sid (emitted (join_room now sid (Some r) (Some u) st)) =
        histories sid (emitted st) @ [fst (loadChatFromDB r st)])
   \<and> (collection (chatMessagesCollection st) = Some docs \<and> \<not> findFails (chatMessagesCollection st) \<longrightarrow>
        mset (fst (loadChatFromDB r st)) =
        mset (map doc_msg (filter (\<lambda>d. doc_roomId d = Some r) docs)))"
proof (intro conjI impI)
  show "sorted (map msg_timestamp (fst (loadChatFromDB r st)))"
    by (rule loadChatFromDB_sorted)
next
  assume "r \<noteq> [] \<and> u \<noteq> []"
  then show "histories sid (emitted (join_room now sid (Some r) (Some u) st)) =
        histories sid (emitted st) @ [fst (loadChatFromDB r st)]"
    by (simp add: join_room_histories)
next
  assume "collection (chatMessagesCollection st) = Some docs \<and> \<not> findFails (chatMessagesCollection st)"
  then have "fst (loadChatFromDB r st) = map doc_msg (find_sorted r docs)"
    by (simp add: loadChatFromDB_def)
  then show "mset (fst (loadChatFromDB r st)) =
        mset (map doc_msg (filter (\<lambda>d. doc_roomId d = Some r) docs))"
    by (simp add: find_sorted_def)
qed

theorem C4_out_of_order_witness:
  "sorted (map msg_timestamp (fst (loadChatFromDB ''a_b'' late_first_store)))
   \<and> histories ''s1'' (emitted (join_room 30 ''s1'' (Some ''a_b'') (Some ''a'') late_first_store)) =
       [[example_msg 10, example_msg 20]]
   \<and> mset (fst (loadChatFromDB ''a_b'' late_first_store)) = {#example_msg 20, example_msg 10#}"
proof -
  let ?docs = "[\<lparr>doc_roomId = Some ''a_b'', doc_msg = example_msg 20\<rparr>,
               \<lparr>doc_roomId = Some ''a_c'', doc_msg = example_msg 15\<rparr>,
               \<lparr>doc_roomId = Some ''a_b'', doc_msg = example_msg 10\<rparr>]"
  have valid: "''a_b'' \<noteq> [] \<and> ''a'' \<noteq> []"
    by simp
  have store: "collection (chatMessagesCollection late_first_store) = Some ?docs
               \<and> \<not> findFails (chatMessagesCollection late_first_store)"
    by (simp add: late_first_store_def init_server_def)
  have loaded: "fst (loadChatFromDB ''a_b'' late_first_store) = [example_msg 10, example_msg 20]"
    by (simp add: loadChatFromDB_def find_sorted_def late_first_store_def init_server_def
          example_msg_def)
  have "emitted late_first_store = []"
    by (simp add: late_first_store_def init_server_def)
  with C4_history_sorted_by_timestamp
         [where r = "''a_b''" and st = late_first_store and u = "''a''" and now = 30
            and sid = "''s1''" and docs = ?docs] valid store loaded
  show ?thesis
    by simp
qed

section \<open>Delivery and persistence\<close>

lemma toLowerCase_literal: "toLowerCase ''A'' = ''a''" "toLowerCase ''a'' = ''a''"
  "toLowerCase ''b'' = ''b''" "toLowerCase ''c'' = ''c''"
  by code_simp+


lemma saveChatMessageToDB_frame:
  "emitted (snd (saveChatMessageToDB k m st)) = emitted st"
  "adapterRooms (snd (saveChatMessageToDB k m st)) = adapterRooms st"
  "chatRoomsCache (snd (saveChatMessageToDB k m st)) = chatRoomsCache st"
  "typingUsers (snd (saveChatMessageToDB k m st)) = typingUsers st"
  "onlineUsers (snd (saveChatMessageToDB k m st)) = onlineUsers st"
  by (simp_all add: saveChatMessageToDB_def console_warn_def console_error_def split: option.splits)

lemma saveChatMessageToDB_console:
  "console (snd (saveChatMessageToDB k m st)) =
     (case collection (chatMessagesCollection st) of
        None \<Rightarrow> console st @ [(Warn, ''[Chat] MongoDB not connected, message not persisted'')]
      | Some docs \<Rightarrow>
          if insertOneFails (chatMessagesCollection st)
          then console st @ [(Error, ''[Chat] Failed to save message to MongoDB:'')]
          else console st)"
  by (simp add: saveChatMessageToDB_def console_warn_def console_error_def split: option.splits)

lemma saveChatMessageToDB_store:
  "chatMessagesCollection (snd (saveChatMessageToDB k m st)) =
     (case collection (chatMessagesCollection st) of
        None \<Rightarrow> chatMessagesCollection st
      | Some docs \<Rightarrow>
          if insertOneFails (chatMessagesCollection st) then chatMessagesCollection st
          else (chatMessagesCollection st)
                 \<lparr>collection := Some (docs @ [\<lparr>doc_roomId = k, doc_msg = m\<rparr>])\<rparr>)"
  by (simp add: saveChatMessageToDB_def console_warn_def console_error_def split: option.splits)


lemma chat_message_emitted:
  assumes "cm_roomId d = Some r" "cm_sender d = Some s" "cm_message d = Some m"
    and "r \<noteq> []" "s \<noteq> []" "m \<noteq> []"
  shows "emitted (chat_message now rnd sid d st) =
             emitted st
             @ (case typingUsers st (Some r) of
                  None \<Rightarrow> []
                | Some tu \<Rightarrow> [\<lparr>em_target = ToRoom (Some r), em_recipients = adapterRooms st r,
                               em_event = Typing (Some (toLowerCase s)) False\<rparr>])
             @ [\<lparr>em_target = ToRoom (Some r), em_recipients = adapterRooms st r,
                 em_event = ChatMessage
                   \<lparr>msg_id = numToString now @ rnd, msg_message = m, msg_sender = toLowerCase s,
                    msg_timestamp = (case cm_timestamp d of Some t \<Rightarrow> t | None \<Rightarrow> now),
                    msg_type = (case cm_type d of None \<Rightarrow> ''text'' | Some t \<Rightarrow> t),
                    msg_duration = None\<rparr>\<rparr>]"
  using assms
  by (simp add: chat_message_def Let_def saveChatMessageToDB_frame emit_def console_warn_def
        recipients_def members_def split: option.splits)

lemma chat_message_typing:
  assumes "cm_roomId d = Some r" "cm_sender d = Some s" "cm_message d = Some m"
    and "r \<noteq> []" "s \<noteq> []" "m \<noteq> []"
  shows "typingUsers (chat_message now rnd sid d st) =
             (case typingUsers st (Some r) of
                None \<Rightarrow> typingUsers st
              | Some tu \<Rightarrow> (typingUsers st)(Some r \<mapsto> tu - {Some (toLowerCase s)}))"
  using assms
  by (simp add: chat_message_def Let_def saveChatMessageToDB_frame emit_def console_warn_def
        split: option.splits)

lemma chat_message_console:
  assumes "cm_roomId d = Some r" "cm_sender d = Some s" "cm_message d = Some m"
    and "r \<noteq> []" "s \<noteq> []" "m \<noteq> []"
  shows "console (chat_message now rnd sid d st) =
           console st
           @ (if adapterRooms st r = {}
              then [(Warn, ''[Chat] WARNING: Room has NO connected users! Message will not be delivered.''),
                    (Warn, ''[Chat] The other user must open the chat and join the room to receive messages.'')]
              else [])
           @ (case collection (chatMessagesCollection st) of
                None \<Rightarrow> [(Warn, ''[Chat] MongoDB not connected, message not persisted'')]
              | Some docs \<Rightarrow>
                  if insertOneFails (chatMessagesCollection st)
                  then [(Error, ''[Chat] Failed to save message to MongoDB:'')]
                  else [])"
  using assms
  by (simp add: chat_message_def Let_def saveChatMessageToDB_console emit_def console_warn_def
        members_def split: option.splits)


lemma loadChatFromDB_frame:
  "adapterRooms (snd (loadChatFromDB r st)) = adapterRooms st"
  "onlineUsers (snd (loadChatFromDB r st)) = onlineUsers st"
  by (simp_all add: loadChatFromDB_def console_error_def split: option.splits)

lemma other_user_status_frame:
  "adapterRooms (other_user_status sid r n st) = adapterRooms st"
  "onlineUsers (other_user_status sid r n st) = onlineUsers st"
  by (simp_all add: other_user_status_def emit_def Let_def split: list.splits)

lemma join_room_membership:
  assumes "r \<noteq> []" "u \<noteq> []"
  shows "adapterRooms (join_room now sid (Some r) (Some u) st) =
           (adapterRooms st)(r := insert sid (adapterRooms st r))"
    and "onlineUsers (join_room now sid (Some r) (Some u) st) =
           onlineUsers (mark_online now (toLowerCase u) sid st)"
  using assms
  by (simp_all add: join_room_def Let_def split_beta other_user_status_frame emit_def
        loadChatFromDB_frame mark_online_def socket_join_def)

lemma loadChatFromDB_unavailable:
  "collection (chatMessagesCollection st) = None \<or> findFails (chatMessagesCollection st) \<Longrightarrow>
   fst (loadChatFromDB r st) = []"
  by (auto simp add: loadChatFromDB_def split: option.splits)

text \<open>
  Claim C5. For a valid chat-message event the message is emitted to the room, with the room's
  current members as recipients, whatever the state of the store: what is emitted does not
  depend on the store at all, a store that is not connected leaves a warning and an insert that
  fails leaves an error line. When the store is not connected or the query fails, a valid join
  still puts the socket in the room, registers the user as online and delivers an empty
  \<^verbatim>\<open>chat-history\<close>.
\<close>

theorem C5_store_failure_never_blocks_delivery:
  assumes "cm_roomId d = Some r" "cm_sender d = Some s" "cm_message d = Some m"
    and "r \<noteq> []" "s \<noteq> []" "m \<noteq> []"
  shows
   "(\<exists>msg. last (emitted (chat_message now rnd sid d st)) =
             \<lparr>em_target = ToRoom (Some r), em_recipients = adapterRooms st r,
              em_event = ChatMessage msg\<rparr>
           \<and> msg_message msg = m \<and> msg_sender msg = toLowerCase s)
    \<and> emitted (chat_message now rnd sid d (st\<lparr>chatMessagesCollection := db\<rparr>)) =
        emitted (chat_message now rnd sid d st)
    \<and> (collection (chatMessagesCollection st) = None \<longrightarrow>
         last (console (chat_message now rnd sid d st)) =
           (Warn, ''[Chat] MongoDB not connected, message not persisted''))
    \<and> (collection (chatMessagesCollection st) \<noteq> None \<and> insertOneFails (chatMessagesCollection st) \<longrightarrow>
         last (console (chat_message now rnd sid d st)) =
           (Error, ''[Chat] Failed to save message to MongoDB:''))
    \<and> (u \<noteq> [] \<and> (collection (chatMessagesCollection st) = None
                   \<or> findFails (chatMessagesCollection st)) \<longrightarrow>
         histories sid (emitted (join_room now sid (Some r) (Some u) st)) = histories sid (emitted st) @ [[]]
         \<and> sid \<in> adapterRooms (join_room now sid (Some r) (Some u) st) r
         \<and> registry_online (join_room now sid (Some r) (Some u) st) (toLowerCase u))"
proof (intro conjI impI)
  show "\<exists>msg. last (emitted (chat_message now rnd sid d st)) =
             \<lparr>em_target = ToRoom (Some r), em_recipients = adapterRooms st r,
              em_event = ChatMessage msg\<rparr>
           \<and> msg_message msg = m \<and> msg_sender msg = toLowerCase s"
    by (simp add: chat_message_emitted [OF assms])
  show "emitted (chat_message now rnd sid d (st\<lparr>chatMessagesCollection := db\<rparr>)) =
        emitted (chat_message now rnd sid d st)"
    by (simp add: chat_message_emitted [OF assms] split: option.splits)
  show "last (console (chat_message now rnd sid d st)) =
           (Warn, ''[Chat] MongoDB not connected, message not persisted'')"
    if "collection (chatMessagesCollection st) = None"
    using that by (simp add: chat_message_console [OF assms])
  show "last (console (chat_message now rnd sid d st)) =
           (Error, ''[Chat] Failed to save message to MongoDB:'')"
    if "collection (chatMessagesCollection st) \<noteq> None \<and> insertOneFails (chatMessagesCollection st)"
    using that by (auto simp add: chat_message_console [OF assms])
next
  assume a: "u \<noteq> [] \<and> (collection (chatMessagesCollection st) = None
                   \<or> findFails (chatMessagesCollection st))"
  then have "fst (loadChatFromDB r st) = []"
    by (simp add: loadChatFromDB_unavailable)
  then show "histories sid (emitted (join_room now sid (Some r) (Some u) st)) = histories sid (emitted st) @ [[]]"
    using a assms(4) by (simp add: join_room_histories)
  show "sid \<in> adapterRooms (join_room now sid (Some r) (Some u) st) r"
    using a assms(4) by (simp add: join_room_membership)
  show "registry_online (join_room now sid (Some r) (Some u) st) (toLowerCase u)"
    using a assms(4) by (simp add: join_room_membership registry_online_def mark_online_def Let_def)
qed


theorem C5_store_down_witness:
  "(\<exists>msg. last (emitted (chat_message 7 ''x'' ''s1'' hi_from_A store_down)) =
             \<lparr>em_target = ToRoom (Some ''a_b''), em_recipients = {''s1'', ''s2''},
              em_event = ChatMessage msg\<rparr>
           \<and> msg_message msg = ''hi'' \<and> msg_sender msg = ''a'')
   \<and> last (console (chat_message 7 ''x'' ''s1'' hi_from_A store_down)) =
        (Warn, ''[Chat] MongoDB not connected, message not persisted'')
   \<and> histories ''s1'' (emitted (join_room 7 ''s1'' (Some ''a_b'') (Some ''A'') store_down)) = [[]]
   \<and> (\<exists>msg. last (emitted (chat_message 7 ''x'' ''s1'' hi_from_A store_rejecting)) =
             \<lparr>em_target = ToRoom (Some ''a_b''), em_recipients = {''s1'', ''s2''},
              em_event = ChatMessage msg\<rparr>
           \<and> msg_message msg = ''hi'' \<and> msg_sender msg = ''a'')
   \<and> last (console (chat_message 7 ''x'' ''s1'' hi_from_A store_rejecting)) =
        (Error, ''[Chat] Failed to save message to MongoDB:'')
   \<and> histories ''s1'' (emitted (join_room 7 ''s1'' (Some ''a_b'') (Some ''A'') store_rejecting)) = [[]]"
proof -
  have fields: "cm_roomId hi_from_A = Some ''a_b''" "cm_sender hi_from_A = Some ''A''"
    "cm_message hi_from_A = Some ''hi''" "''a_b'' \<noteq> []" "''A'' \<noteq> []" "''hi'' \<noteq> []"
    by (simp_all add: hi_from_A_def)
  have down: "collection (chatMessagesCollection store_down) = None"
    "adapterRooms store_down ''a_b'' = {''s1'', ''s2''}" "emitted store_down = []"
    by (simp_all add: store_down_def init_server_def)
  have rejecting: "collection (chatMessagesCollection store_rejecting) \<noteq> None"
    "insertOneFails (chatMessagesCollection store_rejecting)"
    "findFails (chatMessagesCollection store_rejecting)"
    "adapterRooms store_rejecting ''a_b'' = {''s1'', ''s2''}" "emitted store_rejecting = []"
    by (simp_all add: store_rejecting_def init_server_def)
  note at_down = C5_store_failure_never_blocks_delivery
    [OF fields, where now = 7 and rnd = "''x''" and sid = "''s1''" and st = store_down
       and db = "chatMessagesCollection store_rejecting" and u = "''A''"]
  note at_rejecting = C5_store_failure_never_blocks_delivery
    [OF fields, where now = 7 and rnd = "''x''" and sid = "''s1''" and st = store_rejecting
       and db = "chatMessagesCollection store_down" and u = "''A''"]
  from at_down at_rejecting down rejecting show ?thesis
    by (simp add: toLowerCase_literal)
qed

section \<open>Call records\<close>

text \<open>In the range where a double holds every integer, the rounded quotient has the exact
  quotient as its integer part.\<close>

lemma ilog2_bounds: "0 < n \<Longrightarrow> 2 ^ ilog2 n \<le> n \<and> n < 2 ^ (Suc (ilog2 n))"
proof (induction n rule: ilog2.induct)
  case (1 n)
  show ?case
  proof (cases "n < 2")
    case True
    with "1.prems" show ?thesis
      by (simp add: ilog2.simps [of n])
  next
    case False
    then have "0 < n div 2"
      by simp
    with "1.IH" False have ih: "2 ^ ilog2 (n div 2) \<le> n div 2 \<and> n div 2 < 2 ^ Suc (ilog2 (n div 2))"
      by simp
    have eq: "ilog2 n = Suc (ilog2 (n div 2))"
      using False by (simp add: ilog2.simps [of n])
    from ih show ?thesis
      unfolding eq by (simp, arith)
  qed
qed

lemma round_half_even_lower: "a div 60 \<le> round_half_even a 60"
  by (simp add: round_half_even_def Let_def)

lemma round_half_even_upper: "60 * round_half_even a 60 \<le> a + 30"
proof -
  have "a = 60 * (a div 60) + a mod 60"
    by simp
  then show ?thesis
    unfolding round_half_even_def Let_def by (simp split: if_splits, arith)
qed

lemma floor_div60_exact:
  assumes "d \<le> 2 ^ 53"
  shows "floor_div60 d = d div 60"
proof (cases "d < 60")
  case True
  then show ?thesis
    by (simp add: floor_div60_def)
next
  case False
  define q where "q = d div 60"
  define e where "e = ilog2 q"
  define k where "k = 52 - e"
  define t where "t = round_half_even (d * 2 ^ k) 60"
  have q_pos: "0 < q"
    using False by (simp add: q_def)
  have "60 * q \<le> d"
    by (simp add: q_def)
  with assms have "60 * q \<le> (2::nat) ^ 53"
    by simp
  then have q_small: "q < 2 ^ 48"
    by simp
  from ilog2_bounds [OF q_pos] have "(2::nat) ^ e \<le> q"
    by (simp add: e_def)
  then have "(2::nat) ^ e < 2 ^ 48"
    using q_small by (rule le_less_trans)
  then have e_small: "e < 48"
    by (simp only: power_strict_increasing_iff rel_simps)
  then have k_big: "5 \<le> k" and e52: "e \<le> 52"
    by (simp_all add: k_def)
  then have "(2::nat) ^ 5 \<le> 2 ^ k"
    by (simp only: power_increasing_iff rel_simps)
  then have pow: "32 \<le> (2::nat) ^ k"
    by simp
  have d_split: "d = 60 * q + d mod 60"
    by (simp add: q_def)
  have r_small: "d mod 60 < 60"
    by simp
  have lower: "q * 2 ^ k \<le> t"
  proof -
    have "q * 2 ^ k = (60 * (q * 2 ^ k)) div 60"
      by simp
    also have "\<dots> \<le> (d * 2 ^ k) div 60"
    proof (rule div_le_mono)
      have "60 * q * 2 ^ k \<le> d * 2 ^ k"
        using \<open>60 * q \<le> d\<close> by (rule mult_le_mono1)
      then show "60 * (q * 2 ^ k) \<le> d * 2 ^ k"
        by (simp add: mult.assoc)
    qed
    also have "\<dots> \<le> t"
      unfolding t_def by (rule round_half_even_lower)
    finally show ?thesis .
  qed
  have upper: "t < (q + 1) * 2 ^ k"
  proof -
    have "60 * t \<le> d * 2 ^ k + 30"
      unfolding t_def by (rule round_half_even_upper)
    also have "d * 2 ^ k = 60 * q * 2 ^ k + (d mod 60) * 2 ^ k"
      using d_split by (metis add_mult_distrib)
    also have "60 * q * 2 ^ k + (d mod 60) * 2 ^ k + 30 \<le> 60 * q * 2 ^ k + 59 * 2 ^ k + 30"
      using r_small by simp
    also have "\<dots> < 60 * q * 2 ^ k + 60 * 2 ^ k"
      using pow by simp
    also have "\<dots> = 60 * ((q + 1) * 2 ^ k)"
      by (simp add: algebra_simps)
    finally show ?thesis
      by simp
  qed
  have "t div 2 ^ k = q"
  proof -
    obtain s where s: "t = q * 2 ^ k + s"
      using lower by (metis le_Suc_ex)
    with upper have "s < 2 ^ k"
      by (simp add: algebra_simps)
    with s show ?thesis
      by simp
  qed
  moreover have "floor_div60 d = t div 2 ^ k"
    using False e52 by (simp add: floor_div60_def Let_def t_def k_def e_def q_def)
  ultimately show ?thesis
    by (simp add: q_def)
qed

lemma video_call_ended_effect:
  "let k = ce_roomId d;
       m = \<lparr>msg_id = numToString now,
            msg_message = ''Video call ended - Duration: '' @
              (if 0 < floor_div60 (ce_duration d)
               then numToString (floor_div60 (ce_duration d)) @ ''m ''
                      @ numToString (ce_duration d mod 60) @ ''s''
               else numToString (ce_duration d mod 60) @ ''s''),
            msg_sender = ''system'',
            msg_timestamp = now,
            msg_type = ''video-call'',
            msg_duration = Some (ce_duration d)\<rparr>;
       st' = video_call_ended now sid d st
   in chatRoomsCache st' =
        (chatRoomsCache st)(k \<mapsto> (case chatRoomsCache st k of None \<Rightarrow> [] | Some ms \<Rightarrow> ms) @ [m])
    \<and> emitted st' =
        emitted st @ [\<lparr>em_target = ToRoom k, em_recipients = members st k, em_event = ChatMessage m\<rparr>]
    \<and> chatMessagesCollection st' =
        (case collection (chatMessagesCollection st) of
           None \<Rightarrow> chatMessagesCollection st
         | Some docs \<Rightarrow>
             if insertOneFails (chatMessagesCollection st) then chatMessagesCollection st
             else (chatMessagesCollection st)
                    \<lparr>collection := Some (docs @ [\<lparr>doc_roomId = k, doc_msg = m\<rparr>])\<rparr>)"
  by (simp add: video_call_ended_def Let_def saveChatMessageToDB_frame saveChatMessageToDB_store
        emit_def recipients_def members_def split: option.splits)

lemma char_of_digit:
  "char_of (48::nat) = CHR ''0''" "char_of (49::nat) = CHR ''1''" "char_of (50::nat) = CHR ''2''"
  "char_of (51::nat) = CHR ''3''" "char_of (52::nat) = CHR ''4''" "char_of (53::nat) = CHR ''5''"
  "char_of (54::nat) = CHR ''6''" "char_of (55::nat) = CHR ''7''" "char_of (56::nat) = CHR ''8''"
  "char_of (57::nat) = CHR ''9''"
  by code_simp+

lemma numToString_literal:
  "numToString 2 = ''2''" "numToString 5 = ''5''" "numToString 45 = ''45''" "numToString 0 = ''0''"
  "numToString 9 = ''9''" "numToString 56 = ''56''"
  "numToString 1125899906842625 = ''1125899906842625''"
  "numToString 1125899906842624 = ''1125899906842624''"
  by (simp_all add: numToString.simps digitChar_def char_of_digit)

lemma floor_div60_literal:
  "floor_div60 125 = 2" "floor_div60 45 = 0"
  "floor_div60 67553994410557496 = 1125899906842625"
  by (simp_all add: floor_div60_def ilog2.simps round_half_even_def Let_def)

text \<open>
  Claim C8, amended. For a video-call-ended event of \<open>d\<close> seconds, \<open>d\<close> an integer with
  \<open>0 \<le> d \<le> 2 ^ 53\<close>, the recorded message has the text
  \<^verbatim>\<open>Video call ended - Duration: \<close> followed by \<open>d div 60\<close>, \<^verbatim>\<open>m \<close>, \<open>d mod 60\<close> and
  \<^verbatim>\<open>s\<close> when \<open>d div 60\<close> is positive, and by \<open>d mod 60\<close> and \<^verbatim>\<open>s\<close> otherwise. That
  message is appended to the room's cache entry, broadcast to the room, and appended to the
  store when the store is connected and accepts the insert. For 125 seconds the text is
  \<^verbatim>\<open>Video call ended - Duration: 2m 5s\<close>.
\<close>

theorem C8_call_duration_text:
  assumes "ce_duration d \<le> 2 ^ 53"
  shows
  "(\<exists>m.
      chatRoomsCache (video_call_ended now sid d st) (ce_roomId d) =
        Some ((case chatRoomsCache st (ce_roomId d) of None \<Rightarrow> [] | Some ms \<Rightarrow> ms) @ [m])
    \<and> last (emitted (video_call_ended now sid d st)) =
        \<lparr>em_target = ToRoom (ce_roomId d), em_recipients = members st (ce_roomId d),
         em_event = ChatMessage m\<rparr>
    \<and> chatMessagesCollection (video_call_ended now sid d st) =
        (case collection (chatMessagesCollection st) of
           None \<Rightarrow> chatMessagesCollection st
         | Some docs \<Rightarrow>
             if insertOneFails (chatMessagesCollection st) then chatMessagesCollection st
             else (chatMessagesCollection st)
                    \<lparr>collection := Some (docs @ [\<lparr>doc_roomId = ce_roomId d, doc_msg = m\<rparr>])\<rparr>)
    \<and> msg_message m =
        ''Video call ended - Duration: '' @
          (if 0 < ce_duration d div 60
           then numToString (ce_duration d div 60) @ ''m '' @ numToString (ce_duration d mod 60) @ ''s''
           else numToString (ce_duration d mod 60) @ ''s''))
   \<and> (\<exists>m.
      chatRoomsCache (video_call_ended now sid
          \<lparr>ce_roomId = k, ce_duration = 125, ce_sender = s\<rparr> st) k =
        Some ((case chatRoomsCache st k of None \<Rightarrow> [] | Some ms \<Rightarrow> ms) @ [m])
    \<and> last (emitted (video_call_ended now sid
          \<lparr>ce_roomId = k, ce_duration = 125, ce_sender = s\<rparr> st)) =
        \<lparr>em_target = ToRoom k, em_recipients = members st k, em_event = ChatMessage m\<rparr>
    \<and> chatMessagesCollection (video_call_ended now sid
          \<lparr>ce_roomId = k, ce_duration = 125, ce_sender = s\<rparr> st) =
        (case collection (chatMessagesCollection st) of
           None \<Rightarrow> chatMessagesCollection st
         | Some docs \<Rightarrow>
             if insertOneFails (chatMessagesCollection st) then chatMessagesCollection st
             else (chatMessagesCollection st)
                    \<lparr>collection := Some (docs @ [\<lparr>doc_roomId = k, doc_msg = m\<rparr>])\<rparr>)
    \<and> msg_message m = ''Video call ended - Duration: 2m 5s'')"
proof (intro conjI)
  have exact: "floor_div60 (ce_duration d) = ce_duration d div 60"
    using assms by (rule floor_div60_exact)
  show "\<exists>m.
      chatRoomsCache (video_call_ended now sid d st) (ce_roomId d) =
        Some ((case chatRoomsCache st (ce_roomId d) of None \<Rightarrow> [] | Some ms \<Rightarrow> ms) @ [m])
    \<and> last (emitted (video_call_ended now sid d st)) =
        \<lparr>em_target = ToRoom (ce_roomId d), em_recipients = members st (ce_roomId d),
         em_event = ChatMessage m\<rparr>
    \<and> chatMessagesCollection (video_call_ended now sid d st) =
        (case collection (chatMessagesCollection st) of
           None \<Rightarrow> chatMessagesCollection st
         | Some docs \<Rightarrow>
             if insertOneFails (chatMessagesCollection st) then chatMessagesCollection st
             else (chatMessagesCollection st)
                    \<lparr>collection := Some (docs @ [\<lparr>doc_roomId = ce_roomId d, doc_msg = m\<rparr>])\<rparr>)
    \<and> msg_message m =
        ''Video call ended - Duration: '' @
          (if 0 < ce_duration d div 60
           then numToString (ce_duration d div 60) @ ''m '' @ numToString (ce_duration d mod 60) @ ''s''
           else numToString (ce_duration d mod 60) @ ''s'')"
    using video_call_ended_effect [of d now sid st]
    by (simp add: Let_def exact split: option.splits)
  show "\<exists>m.
      chatRoomsCache (video_call_ended now sid
          \<lparr>ce_roomId = k, ce_duration = 125, ce_sender = s\<rparr> st) k =
        Some ((case chatRoomsCache st k of None \<Rightarrow> [] | Some ms \<Rightarrow> ms) @ [m])
    \<and> last (emitted (video_call_ended now sid
          \<lparr>ce_roomId = k, ce_duration = 125, ce_sender = s\<rparr> st)) =
        \<lparr>em_target = ToRoom k, em_recipients = members st k, em_event = ChatMessage m\<rparr>
    \<and> chatMessagesCollection (video_call_ended now sid
          \<lparr>ce_roomId = k, ce_duration = 125, ce_sender = s\<rparr> st) =
        (case collection (chatMessagesCollection st) of
           None \<Rightarrow> chatMessagesCollection st
         | Some docs \<Rightarrow>
             if insertOneFails (chatMessagesCollection st) then chatMessagesCollection st
             else (chatMessagesCollection st)
                    \<lparr>collection := Some (docs @ [\<lparr>doc_roomId = k, doc_msg = m\<rparr>])\<rparr>)
    \<and> msg_message m = ''Video call ended - Duration: 2m 5s''"
    using video_call_ended_effect [of "\<lparr>ce_roomId = k, ce_duration = 125, ce_sender = s\<rparr>" now sid st]
    by (simp add: Let_def numToString_literal floor_div60_literal split: option.splits)
qed

theorem C8_seconds_only_witness:
  "\<exists>m. collection (chatMessagesCollection (video_call_ended 9 ''s1''
          \<lparr>ce_roomId = Some ''a_b'', ce_duration = 45, ce_sender = Some ''a''\<rparr> init_server)) =
         Some [\<lparr>doc_roomId = Some ''a_b'', doc_msg = m\<rparr>]
      \<and> chatRoomsCache (video_call_ended 9 ''s1''
          \<lparr>ce_roomId = Some ''a_b'', ce_duration = 45, ce_sender = Some ''a''\<rparr> init_server)
        (Some ''a_b'') = Some [m]
      \<and> msg_message m = ''Video call ended - Duration: 45s''"
proof -
  have bound: "ce_duration \<lparr>ce_roomId = Some ''a_b'', ce_duration = 45, ce_sender = Some ''a''\<rparr>
               \<le> 2 ^ 53"
    by simp
  from C8_call_duration_text [OF bound, where now = 9 and sid = "''s1''" and st = init_server
          and k = "Some ''a_b''" and s = "Some ''a''", THEN conjunct1]
  obtain m where
    "chatRoomsCache (video_call_ended 9 ''s1''
          \<lparr>ce_roomId = Some ''a_b'', ce_duration = 45, ce_sender = Some ''a''\<rparr> init_server)
        (Some ''a_b'') = Some [m]"
    and "chatMessagesCollection (video_call_ended 9 ''s1''
          \<lparr>ce_roomId = Some ''a_b'', ce_duration = 45, ce_sender = Some ''a''\<rparr> init_server) =
       (chatMessagesCollection init_server)
          \<lparr>collection := Some ([] @ [\<lparr>doc_roomId = Some ''a_b'', doc_msg = m\<rparr>])\<rparr>"
    and "msg_message m = ''Video call ended - Duration: 45s''"
    by (auto simp add: init_server_def numToString_literal)
  then show ?thesis
    by (auto simp add: init_server_def)
qed

text \<open>
  Claim C8, as stated for every non-negative integer, fails above \<open>2 ^ 53\<close>. The duration
  \<open>60 * 2 ^ 50 + 56 = 67553994410557496\<close> is held exactly by a double; its quotient by 60
  is rounded up to \<open>2 ^ 50 + 1\<close>, so the recorded text shows 1125899906842625 minutes,
  one more than \<open>d div 60\<close>.
\<close>

theorem C8_large_duration_counterexample:
  "(\<exists>m. collection (chatMessagesCollection (video_call_ended 9 ''s1''
          \<lparr>ce_roomId = Some ''a_b'', ce_duration = 67553994410557496, ce_sender = Some ''a''\<rparr>
          init_server)) =
         Some [\<lparr>doc_roomId = Some ''a_b'', doc_msg = m\<rparr>]
      \<and> msg_message m = ''Video call ended - Duration: 1125899906842625m 56s''
      \<and> msg_message m \<noteq>
          ''Video call ended - Duration: '' @ numToString (67553994410557496 div 60) @ ''m ''
            @ numToString (67553994410557496 mod 60) @ ''s'')
   \<and> (67553994410557496::nat) div 60 = 1125899906842624
   \<and> (67553994410557496::nat) mod 60 = 56"
proof -
  have "(67553994410557496::nat) div 60 = 1125899906842624"
    and "(67553994410557496::nat) mod 60 = 56"
    by simp_all
  then show ?thesis
    using video_call_ended_effect
      [of "\<lparr>ce_roomId = Some ''a_b'', ce_duration = 67553994410557496, ce_sender = Some ''a''\<rparr>"
          9 "''s1''" init_server]
    by (simp add: Let_def init_server_def numToString_literal floor_div60_literal)
qed


text \<open>
  Claim C10. The message recorded for a video-call-ended event, in the cache, in the
  broadcast and in the stored document, has sender \<^verbatim>\<open>system\<close> and type
  \<^verbatim>\<open>video-call\<close>; the sender field of the event has no influence on the handler's result.
\<close>

theorem C10_call_record_sender_is_system:
  "(\<exists>prev m.
      chatRoomsCache (video_call_ended now sid d st) (ce_roomId d) = Some (prev @ [m])
    \<and> last (emitted (video_call_ended now sid d st)) =
        \<lparr>em_target = ToRoom (ce_roomId d), em_recipients = members st (ce_roomId d),
         em_event = ChatMessage m\<rparr>
    \<and> chatMessagesCollection (video_call_ended now sid d st) =
        (case collection (chatMessagesCollection st) of
           None \<Rightarrow> chatMessagesCollection st
         | Some docs \<Rightarrow>
             if insertOneFails (chatMessagesCollection st) then chatMessagesCollection st
             else (chatMessagesCollection st)
                    \<lparr>collection := Some (docs @ [\<lparr>doc_roomId = ce_roomId d, doc_msg = m\<rparr>])\<rparr>)
    \<and> msg_sender m = ''system'' \<and> msg_type m = ''video-call'')
   \<and> video_call_ended now sid (d\<lparr>ce_sender := s\<rparr>) st = video_call_ended now sid d st"
proof (intro conjI)
  show "\<exists>prev m.
      chatRoomsCache (video_call_ended now sid d st) (ce_roomId d) = Some (prev @ [m])
    \<and> last (emitted (video_call_ended now sid d st)) =
        \<lparr>em_target = ToRoom (ce_roomId d), em_recipients = members st (ce_roomId d),
         em_event = ChatMessage m\<rparr>
    \<and> chatMessagesCollection (video_call_ended now sid d st) =
        (case collection (chatMessagesCollection st) of
           None \<Rightarrow> chatMessagesCollection st
         | Some docs \<Rightarrow>
             if insertOneFails (chatMessagesCollection st) then chatMessagesCollection st
             else (chatMessagesCollection st)
                    \<lparr>collection := Some (docs @ [\<lparr>doc_roomId = ce_roomId d, doc_msg = m\<rparr>])\<rparr>)
    \<and> msg_sender m = ''system'' \<and> msg_type m = ''video-call''"
    using video_call_ended_effect [of d now sid st]
    by (simp add: Let_def split: option.splits)
  show "video_call_ended now sid (d\<lparr>ce_sender := s\<rparr>) st = video_call_ended now sid d st"
    by (simp add: video_call_ended_def)
qed

theorem C10_other_sender_witness:
  "\<exists>m. collection (chatMessagesCollection (video_call_ended 9 ''s1''
          \<lparr>ce_roomId = Some ''a_b'', ce_duration = 45, ce_sender = Some ''0xabc''\<rparr> init_server)) =
         Some [\<lparr>doc_roomId = Some ''a_b'', doc_msg = m\<rparr>]
      \<and> msg_sender m = ''system'' \<and> msg_type m = ''video-call''"
proof -
  from C10_call_record_sender_is_system [where now = 9 and sid = "''s1''" and st = init_server
          and d = "\<lparr>ce_roomId = Some ''a_b'', ce_duration = 45, ce_sender = Some ''0xabc''\<rparr>"
          and s = None]
  obtain m where
    "chatMessagesCollection (video_call_ended 9 ''s1''
          \<lparr>ce_roomId = Some ''a_b'', ce_duration = 45, ce_sender = Some ''0xabc''\<rparr> init_server) =
       (chatMessagesCollection init_server)
          \<lparr>collection := Some ([] @ [\<lparr>doc_roomId = Some ''a_b'', doc_msg = m\<rparr>])\<rparr>"
    and "msg_sender m = ''system''" and "msg_type m = ''video-call''"
    by (auto simp add: init_server_def)
  then show ?thesis
    by auto
qed




section \<open>Presence and typing state at the end of a connection\<close>

lemma split_on_literal:
  "split_on CHR ''_'' ''a_b'' = [''a'', ''b'']" "split_on CHR ''_'' ''a_c'' = [''a'', ''c'']"
  by code_simp+

lemmas handler_defs =
  join_room_def socket_join_def mark_online_def emit_def recipients_def members_def
  loadChatFromDB_def find_sorted_def other_user_status_def in_room_as_def registry_online_def
  transport_connect_def init_server_def console_warn_def console_error_def

lemma status_count_simps:
  "status_count room u status [] = 0"
  "status_count room u status (e # es) =
     (if em_target e = ToRoom (Some room) \<and> em_event e = UserStatus u status then 1 else 0)
     + status_count room u status es"
  "status_count room u status (es @ fs) =
     status_count room u status es + status_count room u status fs"
  by (simp_all add: status_count_def)

lemma two_rooms_fields:
  "socketData two_rooms ''s1'' = \<lparr>userAddress = Some ''a'', roomId = Some ''a_c''\<rparr>"
  "socketRooms two_rooms ''s1'' = [''s1'', ''a_b'', ''a_c'']"
  "onlineUsers two_rooms ''a'' = Some \<lparr>socketIds = {''s1''}, lastSeen = 2\<rparr>"
  "typingUsers two_rooms = Map.empty"
  "status_count ''a_b'' ''a'' ''offline'' (emitted two_rooms) = 0"
  "status_count ''a_c'' ''a'' ''offline'' (emitted two_rooms) = 0"
  by (simp_all add: two_rooms_def handler_defs Let_def split_on_literal toLowerCase_literal
        status_count_simps)

text \<open>The two typing handlers keep the typing map free of empty sets.\<close>

lemma typing_start_inv: "typing_inv st \<Longrightarrow> typing_inv (typing_start sid d st)"
  by (auto simp add: typing_inv_def typing_start_def Let_def emit_def split: option.splits)

lemma typing_stop_inv: "typing_inv st \<Longrightarrow> typing_inv (typing_stop sid d st)"
  by (auto simp add: typing_inv_def typing_stop_def Let_def emit_def split: option.splits if_splits)

text \<open>
  Claim C3 at a concrete input. User \<^verbatim>\<open>a\<close> has one connection, which joined the rooms
  \<^verbatim>\<open>a_b\<close> and then \<^verbatim>\<open>a_c\<close>, and that connection closes. When the handler still finds
  the joined rooms in \<^verbatim>\<open>socket.rooms\<close>, room \<^verbatim>\<open>a_c\<close> is sent the offline status twice;
  when the transport has emptied \<^verbatim>\<open>socket.rooms\<close> before the handler runs, room
  \<^verbatim>\<open>a_b\<close> is sent none. In both cases the user's connection set is empty afterwards.
\<close>

theorem C3_offline_not_once_per_room:
  "status_count ''a_c'' ''a'' ''offline'' (emitted (disconnect ''s1'' two_rooms)) = 2
   \<and> status_count ''a_b'' ''a'' ''offline'' (emitted (disconnect ''s1'' two_rooms)) = 1
   \<and> status_count ''a_c'' ''a'' ''offline''
        (emitted (disconnect ''s1'' (transport_leave_all ''s1'' two_rooms))) = 1
   \<and> status_count ''a_b'' ''a'' ''offline''
        (emitted (disconnect ''s1'' (transport_leave_all ''s1'' two_rooms))) = 0
   \<and> registry_online (disconnect ''s1'' two_rooms) ''a'' = False"
  by (simp add: disconnect_def Let_def two_rooms_fields transport_leave_all_def truthy_def
        emit_def status_count_simps registry_online_def)


text \<open>
  Claim C7 at a concrete input. After typing-start by \<^verbatim>\<open>a\<close> in room \<^verbatim>\<open>a_b\<close>, a chat
  message from \<^verbatim>\<open>a\<close> leaves the room's typing entry in the map with an empty set, and so
  does a disconnect of the typing user's connection; typing-stop removes the entry.
\<close>

theorem C7_empty_typing_entry_survives:
  "typingUsers
     (chat_message 2 ''x'' ''s1''
        \<lparr>cm_roomId = Some ''a_b'', cm_message = Some ''hi'', cm_sender = Some ''a'',
         cm_timestamp = None, cm_type = None\<rparr>
        (typing_start ''s1'' \<lparr>ty_roomId = Some ''a_b'', ty_userAddress = Some ''a''\<rparr> init_server))
     (Some ''a_b'') = Some {}
   \<and> typingUsers
     (disconnect ''s1''
        (typing_start ''s1'' \<lparr>ty_roomId = Some ''a_c'', ty_userAddress = Some ''a''\<rparr> two_rooms))
     (Some ''a_c'') = Some {}
   \<and> typingUsers
     (typing_stop ''s1'' \<lparr>ty_roomId = Some ''a_b'', ty_userAddress = Some ''a''\<rparr>
        (typing_start ''s1'' \<lparr>ty_roomId = Some ''a_b'', ty_userAddress = Some ''a''\<rparr> init_server))
     (Some ''a_b'') = None"
proof (intro conjI)
  show "typingUsers
     (chat_message 2 ''x'' ''s1''
        \<lparr>cm_roomId = Some ''a_b'', cm_message = Some ''hi'', cm_sender = Some ''a'',
         cm_timestamp = None, cm_type = None\<rparr>
        (typing_start ''s1'' \<lparr>ty_roomId = Some ''a_b'', ty_userAddress = Some ''a''\<rparr> init_server))
     (Some ''a_b'') = Some {}"
    by (simp add: chat_message_typing [where r = "''a_b''" and s = "''a''" and m = "''hi''"]
          typing_start_def Let_def emit_def init_server_def toLowerCase_literal)
  show "typingUsers
     (disconnect ''s1''
        (typing_start ''s1'' \<lparr>ty_roomId = Some ''a_c'', ty_userAddress = Some ''a''\<rparr> two_rooms))
     (Some ''a_c'') = Some {}"
    by (simp add: disconnect_def typing_start_def Let_def emit_def two_rooms_fields truthy_def)
  show "typingUsers
     (typing_stop ''s1'' \<lparr>ty_roomId = Some ''a_b'', ty_userAddress = Some ''a''\<rparr>
        (typing_start ''s1'' \<lparr>ty_roomId = Some ''a_b'', ty_userAddress = Some ''a''\<rparr> init_server))
     (Some ''a_b'') = None"
    by (simp add: typing_stop_def typing_start_def Let_def emit_def init_server_def)
qed

end
